theory Spec2Isabelle
  imports Complex_Main "HOL-Library.Sublist"
begin

section \<open>JavaScript numbers\<close>

text \<open>
  A JavaScript number is a double: \<^verbatim>\<open>NaN\<close>, an infinity, or a finite value, which is held
  here as the rational it stands for. The two zeros are one value: nothing the client
  does tells them apart. \<open>Fin x\<close> with an \<open>x\<close> that no double has stands for the double
  nearest to \<open>x\<close>, as a literal does; \<open>whole i\<close> is the number written as the integer
  \<open>i\<close>.
\<close>

datatype number = NaN | PosInf | NegInf | Fin rat

definition whole :: "int \<Rightarrow> number" where
  "whole i = Fin (of_int i)"

text \<open>\<open>2^53\<close>: up to it every integer is a double.\<close>

definition two53 :: int where
  "two53 = 9007199254740992"

definition digit_char :: "nat \<Rightarrow> char" where
  "digit_char d =
     (if d = 0 then CHR ''0'' else if d = 1 then CHR ''1'' else if d = 2 then CHR ''2''
      else if d = 3 then CHR ''3'' else if d = 4 then CHR ''4'' else if d = 5 then CHR ''5''
      else if d = 6 then CHR ''6'' else if d = 7 then CHR ''7'' else if d = 8 then CHR ''8''
      else CHR ''9'')"

fun dec :: "nat \<Rightarrow> string" where
  "dec n = (if n < 10 then [digit_char n] else dec (n div 10) @ [digit_char (n mod 10)])"

declare dec.simps [simp del]

text \<open>The decimal numeral of an integer.\<close>

definition decimal :: "int \<Rightarrow> string" where
  "decimal i = (if i < 0 then CHR ''-'' # dec (nat (- i)) else dec (nat i))"

subsection \<open>Rounding to a double\<close>

fun bit_length :: "nat \<Rightarrow> nat" where
  "bit_length n = (if n = 0 then 0 else Suc (bit_length (n div 2)))"

declare bit_length.simps [simp del]

definition pow2 :: "int \<Rightarrow> rat" where
  "pow2 e = (if 0 \<le> e then 2 ^ nat e else 1 / 2 ^ nat (- e))"

definition pow10 :: "int \<Rightarrow> rat" where
  "pow10 e = (if 0 \<le> e then 10 ^ nat e else 1 / 10 ^ nat (- e))"

text \<open>For \<open>x > 0\<close>: the greatest \<open>e\<close> with \<open>2^e \<le> x\<close>, and the same to base ten.\<close>

definition floor_log2 :: "rat \<Rightarrow> int" where
  "floor_log2 x =
     (case quotient_of x of
        (a, b) \<Rightarrow>
          (let d = int (bit_length (nat a)) - int (bit_length (nat b))
           in if pow2 d \<le> x then d else d - 1))"

definition floor_log10 :: "rat \<Rightarrow> int" where
  "floor_log10 x =
     (case quotient_of x of
        (a, b) \<Rightarrow>
          (let d = int (length (dec (nat a))) - int (length (dec (nat b)))
           in if pow10 d \<le> x then d else d - 1))"

definition is_whole :: "rat \<Rightarrow> bool" where
  "is_whole x = (of_int \<lfloor>x\<rfloor> = x)"

text \<open>
  Round to nearest, ties to even, with 53 significant bits, the least exponent of the
  subnormals and overflow to an infinity. An integer up to \<open>2^53\<close> is a double already.
\<close>

definition round_double :: "rat \<Rightarrow> number" where
  "round_double x =
     (if is_whole x \<and> \<bar>x\<bar> \<le> of_int two53 then Fin x
      else
        (let a = \<bar>x\<bar>;
             q = pow2 (max (floor_log2 a) (- 1022) - 52);
             t = a / q;
             f = \<lfloor>t\<rfloor>;
             r = t - of_int f;
             m = (if 1 / 2 < r \<or> (r = 1 / 2 \<and> odd f) then f + 1 else f);
             y = of_int m * q
         in if pow2 1024 \<le> y then (if x < 0 then NegInf else PosInf)
            else Fin (if x < 0 then - y else y)))"

fun canon :: "number \<Rightarrow> number" where
  "canon (Fin x) = round_double x"
| "canon n = n"

text \<open>\<^verbatim>\<open>n - 1\<close> and \<^verbatim>\<open>Math.max(0, n)\<close>.\<close>

definition num_minus_one :: "number \<Rightarrow> number" where
  "num_minus_one n = (case canon n of Fin x \<Rightarrow> round_double (x - 1) | m \<Rightarrow> m)"

definition math_max0 :: "number \<Rightarrow> number" where
  "math_max0 n =
     (case canon n of
        NaN \<Rightarrow> NaN
      | PosInf \<Rightarrow> PosInf
      | NegInf \<Rightarrow> Fin 0
      | Fin x \<Rightarrow> Fin (max 0 x))"

subsection \<open>Printing a number\<close>

text \<open>
  \<^verbatim>\<open>String(n)\<close> is \<^verbatim>\<open>Number::toString\<close>: the least number \<open>k\<close> of digits \<open>s\<close> with
  \<open>s * 10^(n-k)\<close> rounding to the value, and of two such \<open>s\<close> the nearer one. It is
  written in full for \<open>n \<le> 21\<close>, with a point inside or after \<open>0.\<close> and up to five
  zeros, and with an exponent otherwise. An integer up to \<open>2^53\<close> is its own decimal
  numeral.
\<close>

definition candidate :: "rat \<Rightarrow> int \<Rightarrow> nat \<Rightarrow> int option" where
  "candidate x n k =
     (let p = pow10 (n - int k);
          t = x / p;
          lo = \<lfloor>t\<rfloor>;
          hi = lo + 1;
          vlo = (round_double (of_int lo * p) = Fin x);
          vhi = (round_double (of_int hi * p) = Fin x)
      in if vlo \<and> vhi
         then Some (if t - of_int lo < of_int hi - t then lo
                    else if of_int hi - t < t - of_int lo then hi
                    else if even lo then lo else hi)
         else if vlo then Some lo
         else if vhi then Some hi
         else None)"

function shortest :: "rat \<Rightarrow> int \<Rightarrow> nat \<Rightarrow> int \<times> nat" where
  "shortest x n k =
     (case candidate x n k of
        Some s \<Rightarrow> (s, k)
      | None \<Rightarrow>
          if 17 \<le> k then (\<lfloor>x / pow10 (n - int k) + 1 / 2\<rfloor>, k) else shortest x n (Suc k))"
  by pat_completeness auto
termination
  by (relation "measure (\<lambda>(x, n, k). 17 - k)") auto

declare shortest.simps [simp del]

definition fmt_pos :: "rat \<Rightarrow> string" where
  "fmt_pos x =
     (if is_whole x \<and> x \<le> of_int two53 then dec (nat \<lfloor>x\<rfloor>)
      else
        (let n0 = floor_log10 x + 1;
             sk = shortest x n0 1;
             carry = (fst sk = 10 ^ snd sk);
             s = (if carry then 1 else fst sk);
             k = (if carry then 1 else snd sk);
             n = (if carry then n0 + 1 else n0);
             ds = dec (nat s)
         in if int k \<le> n \<and> n \<le> 21 then ds @ replicate (nat (n - int k)) CHR ''0''
            else if 0 < n \<and> n \<le> 21 then take (nat n) ds @ ''.'' @ drop (nat n) ds
            else if - 6 < n \<and> n \<le> 0 then ''0.'' @ replicate (nat (- n)) CHR ''0'' @ ds
            else (if k = 1 then ds else take 1 ds @ ''.'' @ drop 1 ds)
                 @ ''e'' @ (if n - 1 < 0 then ''-'' else ''+'') @ dec (nat \<bar>n - 1\<bar>)))"

definition number_toString :: "number \<Rightarrow> string" where
  "number_toString n =
     (case canon n of
        NaN \<Rightarrow> ''NaN''
      | PosInf \<Rightarrow> ''Infinity''
      | NegInf \<Rightarrow> ''-Infinity''
      | Fin x \<Rightarrow> (if x < 0 then CHR ''-'' # fmt_pos (- x) else fmt_pos x))"

section \<open>JavaScript values\<close>

text \<open>
  The client in \<^verbatim>\<open>src/integrations/supabase/client.ts\<close> passes values of type
  \<^verbatim>\<open>any\<close> around: parsed JSON, \<^verbatim>\<open>undefined\<close> (a missing property) and caught
  exception objects. \<open>jsval\<close> holds these. Strings are byte strings (UTF-8). An object
  is the list of its own properties in enumeration order.
\<close>

datatype exn = JsError (err_name: string) (err_message: string)

datatype jsval =
    JUndefined
  | JNull
  | JBool bool
  | JNum number
  | JStr string
  | JArr "jsval list"
  | JObj "(string \<times> jsval) list"
  | JErr exn

text \<open>Truthiness, as \<^verbatim>\<open>if (v)\<close>, \<^verbatim>\<open>a && b\<close>, \<^verbatim>\<open>a || b\<close> and \<^verbatim>\<open>!v\<close> test it.\<close>

fun truthy :: "jsval \<Rightarrow> bool" where
  "truthy JUndefined = False"
| "truthy JNull = False"
| "truthy (JBool b) = b"
| "truthy (JNum n) = (case canon n of NaN \<Rightarrow> False | Fin x \<Rightarrow> x \<noteq> 0 | m \<Rightarrow> True)"
| "truthy (JStr s) = (s \<noteq> [])"
| "truthy (JArr xs) = True"
| "truthy (JObj kvs) = True"
| "truthy (JErr e) = True"

definition js_or :: "jsval \<Rightarrow> jsval \<Rightarrow> jsval" where
  "js_or a b = (if truthy a then a else b)"

definition js_and :: "jsval \<Rightarrow> jsval \<Rightarrow> jsval" where
  "js_and a b = (if truthy a then b else a)"

text \<open>\<^verbatim>\<open>a ?? b\<close>: the right operand replaces \<^verbatim>\<open>null\<close> and \<^verbatim>\<open>undefined\<close> only.\<close>

fun nullish :: "jsval \<Rightarrow> bool" where
  "nullish JUndefined = True"
| "nullish JNull = True"
| "nullish v = False"

definition coalesce :: "jsval \<Rightarrow> jsval \<Rightarrow> jsval" where
  "coalesce a b = (if nullish a then b else a)"

text \<open>
  Property reads. \<^verbatim>\<open>v.k\<close> throws a TypeError on \<^verbatim>\<open>null\<close> and \<^verbatim>\<open>undefined\<close>;
  \<^verbatim>\<open>v?.k\<close> gives \<^verbatim>\<open>undefined\<close> there. The client reads the names \<^verbatim>\<open>error\<close> and
  \<^verbatim>\<open>user\<close> only, which no string, number, boolean, array or Error object has
  of its own.
\<close>

fun own_prop :: "jsval \<Rightarrow> string \<Rightarrow> jsval" where
  "own_prop (JObj kvs) k = (case map_of kvs k of None \<Rightarrow> JUndefined | Some v \<Rightarrow> v)"
| "own_prop v k = JUndefined"

definition get_prop :: "jsval \<Rightarrow> string \<Rightarrow> exn + jsval" where
  "get_prop v k =
     (if nullish v
      then Inl (JsError ''TypeError'' (''Cannot read properties of '' @
                  (if v = JNull then ''null'' else ''undefined'')))
      else Inr (own_prop v k))"

definition opt_prop :: "jsval \<Rightarrow> string \<Rightarrow> jsval" where
  "opt_prop v k = (if nullish v then JUndefined else own_prop v k)"

fun isArray :: "jsval \<Rightarrow> bool" where
  "isArray (JArr xs) = True"
| "isArray v = False"

text \<open>\<^verbatim>\<open>v[0]\<close> on an array: \<^verbatim>\<open>undefined\<close> when the array is empty.\<close>

fun first_elem :: "jsval \<Rightarrow> jsval" where
  "first_elem (JArr (x # xs)) = x"
| "first_elem v = JUndefined"

subsection \<open>Strings\<close>

fun join :: "string \<Rightarrow> string list \<Rightarrow> string" where
  "join sep [] = []"
| "join sep [x] = x"
| "join sep (x # y # ys) = x @ sep @ join sep (y # ys)"

text \<open>\<^verbatim>\<open>Error.prototype.toString\<close>.\<close>

definition error_toString :: "exn \<Rightarrow> string" where
  "error_toString e =
     (if err_name e = [] then err_message e
      else if err_message e = [] then err_name e
      else err_name e @ '': '' @ err_message e)"

text \<open>\<^verbatim>\<open>String(v)\<close>: an array joins its elements with commas, \<^verbatim>\<open>null\<close> and
  \<^verbatim>\<open>undefined\<close> elements as the empty string.\<close>

fun js_String :: "jsval \<Rightarrow> string" where
  "js_String JUndefined = ''undefined''"
| "js_String JNull = ''null''"
| "js_String (JBool b) = (if b then ''true'' else ''false'')"
| "js_String (JNum n) = number_toString n"
| "js_String (JStr s) = s"
| "js_String (JArr xs) = join '','' (map (\<lambda>x. if nullish x then [] else js_String x) xs)"
| "js_String (JObj kvs) = ''[object Object]''"
| "js_String (JErr e) = error_toString e"

subsection \<open>JSON.stringify\<close>

definition hex_lower :: "nat \<Rightarrow> char" where
  "hex_lower d =
     (if d < 10 then digit_char d else if d = 10 then CHR ''a'' else if d = 11 then CHR ''b''
      else if d = 12 then CHR ''c'' else if d = 13 then CHR ''d'' else if d = 14 then CHR ''e''
      else CHR ''f'')"

definition json_escape :: "char \<Rightarrow> string" where
  "json_escape c =
     (if c = CHR 0x22 then [CHR 0x5C, CHR 0x22]
      else if c = CHR 0x5C then [CHR 0x5C, CHR 0x5C]
      else if c = CHR 0x08 then [CHR 0x5C, CHR ''b'']
      else if c = CHR 0x0C then [CHR 0x5C, CHR ''f'']
      else if c = CHR 0x0A then [CHR 0x5C, CHR ''n'']
      else if c = CHR 0x0D then [CHR 0x5C, CHR ''r'']
      else if c = CHR 0x09 then [CHR 0x5C, CHR ''t'']
      else if (of_char c :: nat) < 32
        then [CHR 0x5C, CHR ''u'', CHR ''0'', CHR ''0'',
              hex_lower (of_char c div 16), hex_lower (of_char c mod 16)]
      else [c])"

definition json_quote :: "string \<Rightarrow> string" where
  "json_quote s = [CHR 0x22] @ concat (map json_escape s) @ [CHR 0x22]"

text \<open>
  \<^verbatim>\<open>JSON.stringify(v)\<close>: \<open>None\<close> is the result \<^verbatim>\<open>undefined\<close>. A number that is not
  finite is written \<^verbatim>\<open>null\<close>, and so is an \<^verbatim>\<open>undefined\<close> array element; an
  \<^verbatim>\<open>undefined\<close> property is left out; an Error object has no enumerable property.
\<close>

fun stringify :: "jsval \<Rightarrow> string option" where
  "stringify JUndefined = None"
| "stringify JNull = Some ''null''"
| "stringify (JBool b) = Some (if b then ''true'' else ''false'')"
| "stringify (JNum n) =
     Some (case canon n of Fin x \<Rightarrow> number_toString (Fin x) | m \<Rightarrow> ''null'')"
| "stringify (JStr s) = Some (json_quote s)"
| "stringify (JArr xs) =
     Some (''['' @ join '','' (map (\<lambda>x. case stringify x of None \<Rightarrow> ''null'' | Some t \<Rightarrow> t) xs) @ '']'')"
| "stringify (JObj kvs) =
     Some (''{'' @ join '',''
        (concat (map (\<lambda>(k, v). case stringify v of None \<Rightarrow> [] | Some t \<Rightarrow> [json_quote k @ '':'' @ t]) kvs))
        @ ''}'')"
| "stringify (JErr e) = Some ''{}''"

subsection \<open>Objects used as dictionaries\<close>

text \<open>
  \<^verbatim>\<open>obj[k] = v\<close> overwrites an existing property in place and appends a new one.
  \<^verbatim>\<open>Object.entries\<close> lists the array-index keys first, in ascending numeric order, then
  the other keys in insertion order.
\<close>

fun set_prop :: "string \<Rightarrow> 'a \<Rightarrow> (string \<times> 'a) list \<Rightarrow> (string \<times> 'a) list" where
  "set_prop k v [] = [(k, v)]"
| "set_prop k v ((k', v') # kvs) =
     (if k = k' then (k, v) # kvs else (k', v') # set_prop k v kvs)"

definition is_digit :: "char \<Rightarrow> bool" where
  "is_digit c = (48 \<le> (of_char c :: nat) \<and> (of_char c :: nat) \<le> 57)"

definition parse_int :: "string \<Rightarrow> int" where
  "parse_int s = foldl (\<lambda>a c. 10 * a + (of_char c - 48)) 0 s"

definition array_index :: "string \<Rightarrow> int option" where
  "array_index k =
     (if k \<noteq> [] \<and> list_all is_digit k \<and> (k = ''0'' \<or> hd k \<noteq> CHR ''0'')
         \<and> parse_int k < 4294967295
      then Some (parse_int k) else None)"

definition object_entries :: "(string \<times> 'a) list \<Rightarrow> (string \<times> 'a) list" where
  "object_entries kvs =
     sort_key (\<lambda>kv. case array_index (fst kv) of None \<Rightarrow> 0 | Some i \<Rightarrow> i)
       (filter (\<lambda>kv. array_index (fst kv) \<noteq> None) kvs)
     @ filter (\<lambda>kv. array_index (fst kv) = None) kvs"

subsection \<open>URLSearchParams\<close>

text \<open>
  \<^verbatim>\<open>params.toString()\<close> is the application/x-www-form-urlencoded serializer: a byte
  stays as it is when it is an ASCII letter or digit or one of \<^verbatim>\<open>*-._\<close>, a space
  becomes \<^verbatim>\<open>+\<close>, any other byte becomes \<^verbatim>\<open>%XX\<close> in upper-case hexadecimal.
\<close>

definition hex_upper :: "nat \<Rightarrow> char" where
  "hex_upper d =
     (if d < 10 then digit_char d else if d = 10 then CHR ''A'' else if d = 11 then CHR ''B''
      else if d = 12 then CHR ''C'' else if d = 13 then CHR ''D'' else if d = 14 then CHR ''E''
      else CHR ''F'')"

definition unreserved :: "char \<Rightarrow> bool" where
  "unreserved c =
     (let n = (of_char c :: nat) in
        (48 \<le> n \<and> n \<le> 57) \<or> (65 \<le> n \<and> n \<le> 90) \<or> (97 \<le> n \<and> n \<le> 122)
        \<or> n = 42 \<or> n = 45 \<or> n = 46 \<or> n = 95)"

definition encode_byte :: "char \<Rightarrow> string" where
  "encode_byte c =
     (if unreserved c then [c]
      else if c = CHR '' '' then ''+''
      else [CHR ''%'', hex_upper (of_char c div 16), hex_upper (of_char c mod 16)])"

definition form_encode :: "string \<Rightarrow> string" where
  "form_encode s = concat (map encode_byte s)"

definition params_toString :: "(string \<times> string) list \<Rightarrow> string" where
  "params_toString ps = join ''&'' (map (\<lambda>(k, v). form_encode k @ ''='' @ form_encode v) ps)"

section \<open>The query builder\<close>

datatype http_method = GET | POST | PATCH | DELETE

text \<open>
  The closure \<^verbatim>\<open>state\<close> of \<^verbatim>\<open>makeQueryBuilder\<close>. \<open>filters\<close> holds the own properties
  of the object \<^verbatim>\<open>state.filters\<close> and \<open>filters_proto\<close> its prototype: \<open>None\<close> is
  \<^verbatim>\<open>Object.prototype\<close>, which the object literal gives it.
\<close>

record qstate =
  filters :: "(string \<times> jsval) list"
  filters_proto :: "jsval option"
  order' :: "(string \<times> bool) option"
  range' :: "(number \<times> number) option"
  limit :: "number option"
  method' :: http_method
  payload :: jsval

definition init_state :: qstate where
  "init_state = \<lparr>filters = [], filters_proto = None, order' = None, range' = None,
                  limit = None, method' = GET, payload = JNull\<rparr>"

text \<open>
  \<^verbatim>\<open>buildQS\<close>: the equality filters, then the sort key, then the window. The window is
  the range when one is set, else from \<open>0\<close> to \<^verbatim>\<open>Math.max(0, state.limit - 1)\<close> when a
  limit is set.
\<close>

definition filter_params :: "qstate \<Rightarrow> (string \<times> string) list" where
  "filter_params st = map (\<lambda>(k, v). (''eq.'' @ k, js_String v)) (object_entries (filters st))"

definition order_params :: "qstate \<Rightarrow> (string \<times> string) list" where
  "order_params st =
     (case order' st of
        None \<Rightarrow> []
      | Some (column, ascending) \<Rightarrow>
          [(''order'', column @ ''.'' @ (if ascending then ''asc'' else ''desc''))])"

definition page_params :: "qstate \<Rightarrow> (string \<times> string) list" where
  "page_params st =
     (case range' st of
        Some (from, to) \<Rightarrow> [(''from'', number_toString from), (''to'', number_toString to)]
      | None \<Rightarrow>
          (case limit st of
             Some n \<Rightarrow> [(''from'', ''0''), (''to'', number_toString (math_max0 (num_minus_one n)))]
           | None \<Rightarrow> []))"

definition params :: "qstate \<Rightarrow> (string \<times> string) list" where
  "params st = filter_params st @ order_params st @ page_params st"

definition buildQS :: "qstate \<Rightarrow> string" where
  "buildQS st = (let qs = params_toString (params st) in if qs = [] then [] else ''?'' @ qs)"

text \<open>
  The query string that ends in the window \<open>from=f&to=t\<close>, after the filter and
  sort parameters of the state.
\<close>

definition window_qs :: "qstate \<Rightarrow> string \<Rightarrow> string \<Rightarrow> string" where
  "window_qs st f t =
     ''?'' @ (if filter_params st @ order_params st = [] then []
              else params_toString (filter_params st @ order_params st) @ ''&'')
     @ ''from='' @ f @ ''&to='' @ t"

text \<open>
  \<^verbatim>\<open>state.filters[column] = value\<close>. The name \<^verbatim>\<open>__proto__\<close> is an accessor of
  \<^verbatim>\<open>Object.prototype\<close>: while the object has no property of that name and inherits
  the accessor, the assignment calls its setter, which makes an object or \<^verbatim>\<open>null\<close>
  the prototype and ignores any other value; no property is made. The accessor is
  no longer inherited once the prototype is \<^verbatim>\<open>null\<close> or an object with a property
  \<^verbatim>\<open>__proto__\<close> of its own. Every other assignment makes or overwrites a property.
\<close>

fun is_object :: "jsval \<Rightarrow> bool" where
  "is_object (JArr xs) = True"
| "is_object (JObj kvs) = True"
| "is_object (JErr e) = True"
| "is_object v = False"

fun inherits_proto_setter :: "jsval option \<Rightarrow> bool" where
  "inherits_proto_setter None = True"
| "inherits_proto_setter (Some JNull) = False"
| "inherits_proto_setter (Some (JObj kvs)) = (map_of kvs ''__proto__'' = None)"
| "inherits_proto_setter (Some v) = True"

definition assign_filter :: "string \<Rightarrow> jsval \<Rightarrow> qstate \<Rightarrow> qstate" where
  "assign_filter column v st =
     (if column = ''__proto__'' \<and> map_of (filters st) ''__proto__'' = None
         \<and> inherits_proto_setter (filters_proto st)
      then (if is_object v \<or> v = JNull then st\<lparr>filters_proto := Some v\<rparr> else st)
      else st\<lparr>filters := set_prop column v (filters st)\<rparr>)"

text \<open>The chaining methods: each mutates the state and returns the builder.\<close>

datatype call =
    Select "string option"
  | Order string "bool option"
  | Range number number
  | Limit number
  | Eq string jsval
  | Insert jsval
  | Update jsval

fun apply_call :: "call \<Rightarrow> qstate \<Rightarrow> qstate" where
  "apply_call (Select columns) st = st"
| "apply_call (Order column ascending) st =
     st\<lparr>order' := Some (column, case ascending of None \<Rightarrow> True | Some b \<Rightarrow> b)\<rparr>"
| "apply_call (Range from to) st = st\<lparr>range' := Some (from, to)\<rparr>"
| "apply_call (Limit n) st = st\<lparr>limit := Some n\<rparr>"
| "apply_call (Eq column v) st = assign_filter column v st"
| "apply_call (Insert p) st = st\<lparr>method' := POST, payload := p\<rparr>"
| "apply_call (Update p) st = st\<lparr>method' := PATCH, payload := p\<rparr>"

text \<open>A chain of calls on a fresh builder, in caller order.\<close>

definition chain :: "call list \<Rightarrow> qstate" where
  "chain cs = fold apply_call cs init_state"



section \<open>The transport\<close>

text \<open>
  \<^verbatim>\<open>fetch\<close> either rejects (no response) or resolves with a response. Of a response
  the client reads \<^verbatim>\<open>ok\<close>, \<^verbatim>\<open>statusText\<close>, the content-type header and the body through
  \<^verbatim>\<open>json()\<close> or \<^verbatim>\<open>text()\<close>, each of which may reject in its turn. The server is any
  function of the requests sent before and the request at hand; the world holds the
  log of the requests sent and the module variable \<^verbatim>\<open>__currentSession\<close>.
\<close>

datatype req_body = TextBody string | FormData "(string \<times> string) list"

record request =
  url :: string
  req_method :: "http_method option"
  credentials :: string
  headers :: "(string \<times> string) list"
  body :: "req_body option"

record response =
  ok :: bool
  statusText :: string
  contentType :: "string option"
  json_body :: "exn + jsval"
  text_body :: "exn + string"

datatype fetch_result = NetworkFailure exn | Response response

type_synonym server = "request list \<Rightarrow> request \<Rightarrow> fetch_result"

record world =
  sent :: "request list"
  currentSession :: jsval

text \<open>A settled promise.\<close>

datatype 'a settled = Resolved 'a | Rejected exn

record result =
  data :: jsval
  error :: jsval

record opts =
  o_method :: "http_method option"
  o_body :: "req_body option"
  o_headers :: "(string \<times> string) list option"

definition no_opts :: opts where
  "no_opts = \<lparr>o_method = None, o_body = None, o_headers = None\<rparr>"

text \<open>\<^verbatim>\<open>.replace(/\/+$/, "")\<close>\<close>

definition strip_trailing_slashes :: "string \<Rightarrow> string" where
  "strip_trailing_slashes s = rev (dropWhile (\<lambda>c. c = CHR ''/'') (rev s))"

fun is_FormData :: "req_body option \<Rightarrow> bool" where
  "is_FormData (Some (FormData fd)) = True"
| "is_FormData b = False"

text \<open>
  The arguments \<^verbatim>\<open>api\<close> gives \<^verbatim>\<open>fetch\<close>. The options are spread last, so a
  \<^verbatim>\<open>headers\<close> option replaces the merged headers.
\<close>

definition api_request :: "string \<Rightarrow> string \<Rightarrow> opts \<Rightarrow> request" where
  "api_request API_BASE path opts =
     \<lparr>url = strip_trailing_slashes (API_BASE @ path),
      req_method = o_method opts,
      credentials = ''include'',
      headers =
        (case o_headers opts of
           Some hs \<Rightarrow> hs
         | None \<Rightarrow> (if is_FormData (o_body opts) then [] else [(''Content-Type'', ''application/json'')])),
      body = o_body opts\<rparr>"

definition isJson :: "response \<Rightarrow> bool" where
  "isJson res = (case contentType res of None \<Rightarrow> False | Some ct \<Rightarrow> sublist ''application/json'' ct)"

text \<open>\<^verbatim>\<open>isJson ? await res.json() : await res.text()\<close>\<close>

definition body_value :: "response \<Rightarrow> exn + jsval" where
  "body_value res = (if isJson res then json_body res else map_sum id JStr (text_body res))"

text \<open>
  What \<^verbatim>\<open>api\<close> makes of the outcome of \<^verbatim>\<open>fetch\<close>. Nothing is caught: a rejection of
  \<^verbatim>\<open>fetch\<close> or of the body reader rejects the promise \<^verbatim>\<open>api\<close> returns. On a
  response that is not ok the error is
  \<^verbatim>\<open>(data && (data.error || data)) || res.statusText\<close>.
\<close>

definition api_result :: "fetch_result \<Rightarrow> result settled" where
  "api_result f =
     (case f of
        NetworkFailure e \<Rightarrow> Rejected e
      | Response res \<Rightarrow>
          (case body_value res of
             Inl e \<Rightarrow> Rejected e
           | Inr d \<Rightarrow>
               if \<not> ok res
               then Resolved \<lparr>data = JNull,
                       error = js_or (js_and d (js_or (own_prop d ''error'') d))
                                     (JStr (statusText res))\<rparr>
               else Resolved \<lparr>data = d, error = JNull\<rparr>))"

definition api :: "server \<Rightarrow> string \<Rightarrow> string \<Rightarrow> opts \<Rightarrow> world \<Rightarrow> result settled \<times> world" where
  "api srv API_BASE path opts w =
     (let req = api_request API_BASE path opts
      in (api_result (srv (sent w) req), w\<lparr>sent := sent w @ [req]\<rparr>))"

section \<open>Executing a chain\<close>

text \<open>
  \<^verbatim>\<open>run\<close> switches on the method for the options it passes to \<^verbatim>\<open>api\<close>; the URL is the
  same in every branch.
\<close>

definition run_opts :: "qstate \<Rightarrow> opts" where
  "run_opts st =
     (case method' st of
        POST \<Rightarrow> \<lparr>o_method = Some POST, o_body = map_option TextBody (stringify (payload st)),
                 o_headers = None\<rparr>
      | PATCH \<Rightarrow> \<lparr>o_method = Some PATCH, o_body = map_option TextBody (stringify (payload st)),
                  o_headers = None\<rparr>
      | DELETE \<Rightarrow> \<lparr>o_method = Some DELETE, o_body = None, o_headers = None\<rparr>
      | GET \<Rightarrow> no_opts)"

definition run_url :: "string \<Rightarrow> qstate \<Rightarrow> string" where
  "run_url table st = ''/db/'' @ table @ buildQS st"

definition run :: "server \<Rightarrow> string \<Rightarrow> string \<Rightarrow> qstate \<Rightarrow> world \<Rightarrow> result settled \<times> world" where
  "run srv API_BASE table st w = api srv API_BASE (run_url table st) (run_opts st) w"

text \<open>The request a chain sends when it runs.\<close>

definition run_request :: "string \<Rightarrow> string \<Rightarrow> qstate \<Rightarrow> request" where
  "run_request API_BASE table st = api_request API_BASE (run_url table st) (run_opts st)"

definition single :: "server \<Rightarrow> string \<Rightarrow> string \<Rightarrow> qstate \<Rightarrow> world \<Rightarrow> result settled \<times> world" where
  "single srv API_BASE table st w =
     (case run srv API_BASE table st w of
        (Rejected e, w') \<Rightarrow> (Rejected e, w')
      | (Resolved res, w') \<Rightarrow>
          if truthy (error res) then (Resolved res, w')
          else if isArray (data res)
            then (Resolved \<lparr>data = coalesce (first_elem (data res)) JNull, error = JNull\<rparr>, w')
          else (Resolved res, w'))"

definition maybeSingle :: "server \<Rightarrow> string \<Rightarrow> string \<Rightarrow> qstate \<Rightarrow> world \<Rightarrow> result settled \<times> world" where
  "maybeSingle srv API_BASE table st w =
     (case run srv API_BASE table st w of
        (Rejected e, w') \<Rightarrow> (Rejected e, w')
      | (Resolved res, w') \<Rightarrow>
          if truthy (error res) then (Resolved res, w')
          else if isArray (data res)
            then (Resolved \<lparr>data = coalesce (first_elem (data res)) JNull, error = JNull\<rparr>, w')
          else (Resolved res, w'))"

text \<open>\<^verbatim>\<open>delete().eq(column, value)\<close>: marks the method, adds the filter and runs.\<close>

definition delete_eq ::
  "server \<Rightarrow> string \<Rightarrow> string \<Rightarrow> string \<Rightarrow> jsval \<Rightarrow> qstate \<Rightarrow> world \<Rightarrow> result settled \<times> world" where
  "delete_eq srv API_BASE table column v st w =
     run srv API_BASE table (assign_filter column v (st\<lparr>method' := DELETE\<rparr>)) w"


section \<open>The session facade\<close>

text \<open>\<^verbatim>\<open>data?.user ? { user: data.user } : null\<close>\<close>

definition session_of :: "jsval \<Rightarrow> jsval" where
  "session_of d =
     (if truthy (opt_prop d ''user'') then JObj [(''user'', own_prop d ''user'')] else JNull)"

definition getUser :: "server \<Rightarrow> string \<Rightarrow> world \<Rightarrow> result settled \<times> world" where
  "getUser srv API_BASE w =
     (case api srv API_BASE ''/auth/session'' no_opts w of
        (Rejected e, w') \<Rightarrow> (Rejected e, w')
      | (Resolved res, w') \<Rightarrow>
          (Resolved \<lparr>data = JObj [(''user'', coalesce (opt_prop (data res) ''user'') JNull)],
                     error = error res\<rparr>, w'))"

definition getSession :: "server \<Rightarrow> string \<Rightarrow> world \<Rightarrow> result settled \<times> world" where
  "getSession srv API_BASE w =
     (case api srv API_BASE ''/auth/session'' no_opts w of
        (Rejected e, w') \<Rightarrow> (Rejected e, w')
      | (Resolved res, w') \<Rightarrow>
          (let session = session_of (data res)
           in (Resolved \<lparr>data = JObj [(''session'', session)], error = error res\<rparr>,
               w'\<lparr>currentSession := session\<rparr>)))"

definition credentials_opts :: "string \<Rightarrow> string \<Rightarrow> opts" where
  "credentials_opts email password =
     \<lparr>o_method = Some POST,
      o_body = map_option TextBody
                 (stringify (JObj [(''email'', JStr email), (''password'', JStr password)])),
      o_headers = None\<rparr>"

text \<open>
  \<^verbatim>\<open>signInWithPassword\<close> writes \<^verbatim>\<open>__currentSession\<close> when the result carries no error;
  \<^verbatim>\<open>signUp\<close> is the same request against \<^verbatim>\<open>/auth/signup\<close> and has no such statement.
  In both, \<^verbatim>\<open>res.data.user\<close> throws when \<^verbatim>\<open>res.data\<close> is \<^verbatim>\<open>null\<close>.
\<close>

definition signInWithPassword ::
  "server \<Rightarrow> string \<Rightarrow> string \<Rightarrow> string \<Rightarrow> world \<Rightarrow> result settled \<times> world" where
  "signInWithPassword srv API_BASE email password w =
     (case api srv API_BASE ''/auth/signin'' (credentials_opts email password) w of
        (Rejected e, w') \<Rightarrow> (Rejected e, w')
      | (Resolved res, w') \<Rightarrow>
          if \<not> truthy (error res)
          then (case get_prop (data res) ''user'' of
                  Inl e \<Rightarrow> (Rejected e, w')
                | Inr u \<Rightarrow>
                    (Resolved \<lparr>data = JObj [(''user'', u)], error = JNull\<rparr>,
                     w'\<lparr>currentSession := JObj [(''user'', u)]\<rparr>))
          else (Resolved \<lparr>data = JNull, error = error res\<rparr>, w'))"

definition signUp ::
  "server \<Rightarrow> string \<Rightarrow> string \<Rightarrow> string \<Rightarrow> world \<Rightarrow> result settled \<times> world" where
  "signUp srv API_BASE email password w =
     (case api srv API_BASE ''/auth/signup'' (credentials_opts email password) w of
        (Rejected e, w') \<Rightarrow> (Rejected e, w')
      | (Resolved res, w') \<Rightarrow>
          if truthy (error res) then (Resolved \<lparr>data = JNull, error = error res\<rparr>, w')
          else (case get_prop (data res) ''user'' of
                  Inl e \<Rightarrow> (Rejected e, w')
                | Inr u \<Rightarrow> (Resolved \<lparr>data = JObj [(''user'', u)], error = JNull\<rparr>, w')))"

text \<open>\<^verbatim>\<open>signOut\<close> resolves to an object with the one field \<^verbatim>\<open>error\<close>; its \<open>data\<close> is
  \<^verbatim>\<open>undefined\<close> here.\<close>

definition signOut :: "server \<Rightarrow> string \<Rightarrow> world \<Rightarrow> result settled \<times> world" where
  "signOut srv API_BASE w =
     (case api srv API_BASE ''/auth/signout''
             \<lparr>o_method = Some POST, o_body = None, o_headers = None\<rparr> w of
        (Rejected e, w') \<Rightarrow> (Rejected e, w')
      | (Resolved res, w') \<Rightarrow>
          (Resolved \<lparr>data = JUndefined,
                     error = (if truthy (error res) then error res else JNull)\<rparr>,
           w'\<lparr>currentSession := JNull\<rparr>))"

text \<open>\<^verbatim>\<open>res.error ? { data: null, error: res.error } : { data: res.data, error: null }\<close>\<close>

definition data_or_error :: "result \<Rightarrow> result" where
  "data_or_error res =
     (if truthy (error res) then \<lparr>data = JNull, error = error res\<rparr>
      else \<lparr>data = data res, error = JNull\<rparr>)"

definition post_json ::
  "server \<Rightarrow> string \<Rightarrow> string \<Rightarrow> jsval \<Rightarrow> world \<Rightarrow> result settled \<times> world" where
  "post_json srv API_BASE path v w =
     (case api srv API_BASE path
             \<lparr>o_method = Some POST, o_body = map_option TextBody (stringify v),
              o_headers = None\<rparr> w of
        (Rejected e, w') \<Rightarrow> (Rejected e, w')
      | (Resolved res, w') \<Rightarrow> (Resolved (data_or_error res), w'))"

definition updateUser :: "server \<Rightarrow> string \<Rightarrow> jsval \<Rightarrow> world \<Rightarrow> result settled \<times> world" where
  "updateUser srv API_BASE p w = post_json srv API_BASE ''/auth/update_user'' p w"

definition invoke :: "server \<Rightarrow> string \<Rightarrow> string \<Rightarrow> jsval \<Rightarrow> world \<Rightarrow> result settled \<times> world" where
  "invoke srv API_BASE name b w =
     post_json srv API_BASE (''/functions/'' @ name) (js_or b (JObj [])) w"

definition rpc :: "server \<Rightarrow> string \<Rightarrow> string \<Rightarrow> jsval \<Rightarrow> world \<Rightarrow> result settled \<times> world" where
  "rpc srv API_BASE fn ps w = post_json srv API_BASE (''/rpc/'' @ fn) (js_or ps (JObj [])) w"

subsection \<open>Polling\<close>

text \<open>
  \<^verbatim>\<open>onAuthStateChange(callback)\<close> remembers the cached session as a JSON string and
  starts an interval timer. Each time the timer fires, its handler calls \<^verbatim>\<open>api\<close> and is
  suspended at the \<^verbatim>\<open>await\<close>; when that promise settles the handler compares, stores
  and notifies in one go. A subscription holds the closure variable \<^verbatim>\<open>last\<close>, whether
  the timer is still set, the polls that are suspended, and the calls made to the
  callback so far. \<^verbatim>\<open>unsubscribe\<close> is \<^verbatim>\<open>clearInterval(timer)\<close>.
\<close>

record subscription =
  wld :: world
  last' :: "string option"
  timer_set :: bool
  in_flight :: "result settled list"
  notified :: "(string \<times> jsval) list"

definition onAuthStateChange :: "world \<Rightarrow> subscription" where
  "onAuthStateChange w =
     \<lparr>wld = w, last' = stringify (js_or (currentSession w) JNull), timer_set = True,
      in_flight = [], notified = []\<rparr>"

definition poll_start :: "server \<Rightarrow> string \<Rightarrow> subscription \<Rightarrow> subscription" where
  "poll_start srv API_BASE s =
     (if timer_set s
      then (case api srv API_BASE ''/auth/session'' no_opts (wld s) of
              (r, w') \<Rightarrow> s\<lparr>wld := w', in_flight := in_flight s @ [r]\<rparr>)
      else s)"

definition poll_finish :: "result settled \<Rightarrow> subscription \<Rightarrow> subscription" where
  "poll_finish r s =
     (case r of
        Rejected e \<Rightarrow> s
      | Resolved res \<Rightarrow>
          (let next = session_of (data res);
               nextStr = stringify next
           in if nextStr \<noteq> last' s
              then s\<lparr>last' := nextStr,
                     wld := (wld s)\<lparr>currentSession := next\<rparr>,
                     notified := notified s @
                       [(if truthy next then ''SIGNED_IN'' else ''SIGNED_OUT'', next)]\<rparr>
              else s))"

datatype event = TimerFires | PollSettles nat | Unsubscribe

fun step :: "server \<Rightarrow> string \<Rightarrow> event \<Rightarrow> subscription \<Rightarrow> subscription" where
  "step srv API_BASE TimerFires s = poll_start srv API_BASE s"
| "step srv API_BASE (PollSettles i) s =
     (if i < length (in_flight s)
      then poll_finish (in_flight s ! i)
             (s\<lparr>in_flight := take i (in_flight s) @ drop (Suc i) (in_flight s)\<rparr>)
      else s)"
| "step srv API_BASE Unsubscribe s = s\<lparr>timer_set := False\<rparr>"

definition run_events :: "server \<Rightarrow> string \<Rightarrow> event list \<Rightarrow> subscription \<Rightarrow> subscription" where
  "run_events srv API_BASE evs s = fold (step srv API_BASE) evs s"

text \<open>A poll tick that settles before the next one: the timer fires and its poll completes.\<close>

definition poll_tick :: "server \<Rightarrow> string \<Rightarrow> subscription \<Rightarrow> subscription" where
  "poll_tick srv API_BASE s = step srv API_BASE (PollSettles 0) (step srv API_BASE TimerFires s)"

subsection \<open>Servers for concrete runs\<close>

definition json_response :: "jsval \<Rightarrow> fetch_result" where
  "json_response v =
     Response \<lparr>ok = True, statusText = ''OK'', contentType = Some ''application/json'',
               json_body = Inr v, text_body = Inr []\<rparr>"


definition failed_to_fetch :: exn where
  "failed_to_fetch = JsError ''TypeError'' ''Failed to fetch''"

text \<open>The \<open>n\<close>-th request gets the \<open>n\<close>-th outcome of the script; the network is down
  after that.\<close>

definition scripted :: "fetch_result list \<Rightarrow> server" where
  "scripted rs h req = (if length h < length rs then rs ! length h else NetworkFailure failed_to_fetch)"

text \<open>The session \<^verbatim>\<open>{user: {id: "u1"}}\<close>, and a session endpoint that answers four polls with
  \<^verbatim>\<open>null\<close>, that session twice, and \<^verbatim>\<open>null\<close>.\<close>

definition u1_session :: jsval where
  "u1_session = JObj [(''user'', JObj [(''id'', JStr ''u1'')])]"

definition session_script :: server where
  "session_script =
     scripted [json_response JNull, json_response u1_session, json_response u1_session,
               json_response JNull]"

text \<open>The same four answers after a first answer with the session, which \<^verbatim>\<open>getSession\<close>
  reads before the subscription is made.\<close>

definition session_script_signed_in :: server where
  "session_script_signed_in =
     scripted [json_response u1_session, json_response JNull, json_response u1_session,
               json_response u1_session, json_response JNull]"


definition fresh :: world where
  "fresh = \<lparr>sent = [], currentSession = JNull\<rparr>"

section \<open>The plain fetch client\<close>

text \<open>
  \<^verbatim>\<open>src/lib/localFlaskClient.ts\<close>: \<^verbatim>\<open>run\<close> sends the request and reads the body as
  JSON; \<^verbatim>\<open>wrap\<close> turns the promise into one that resolves to a result, its
  \<^verbatim>\<open>catch\<close> handler taking any rejection.
\<close>

definition then_p :: "'a settled \<Rightarrow> ('a \<Rightarrow> 'b settled) \<Rightarrow> 'b settled" where
  "then_p p f = (case p of Resolved x \<Rightarrow> f x | Rejected e \<Rightarrow> Rejected e)"

definition catch_p :: "'a settled \<Rightarrow> (exn \<Rightarrow> 'a settled) \<Rightarrow> 'a settled" where
  "catch_p p h = (case p of Resolved x \<Rightarrow> Resolved x | Rejected e \<Rightarrow> h e)"

definition wrap :: "jsval settled \<Rightarrow> result settled" where
  "wrap p =
     catch_p
       (then_p p (\<lambda>j. Resolved (if truthy (opt_prop j ''error'')
                                 then \<lparr>data = JNull, error = j\<rparr>
                                 else \<lparr>data = j, error = JNull\<rparr>)))
       (\<lambda>e. Resolved \<lparr>data = JNull, error = JErr e\<rparr>)"

definition flask_request :: "string \<Rightarrow> http_method \<Rightarrow> jsval \<Rightarrow> request" where
  "flask_request u m b =
     \<lparr>url = u, req_method = Some m, credentials = ''include'',
      headers = [(''Content-Type'', ''application/json'')],
      body = (if b \<noteq> JUndefined then map_option TextBody (stringify b) else None)\<rparr>"

definition flask_fetch :: "fetch_result \<Rightarrow> response settled" where
  "flask_fetch f = (case f of NetworkFailure e \<Rightarrow> Rejected e | Response res \<Rightarrow> Resolved res)"

definition res_json :: "response \<Rightarrow> jsval settled" where
  "res_json res = (case json_body res of Inl e \<Rightarrow> Rejected e | Inr j \<Rightarrow> Resolved j)"

definition flask_run ::
  "server \<Rightarrow> string \<Rightarrow> http_method \<Rightarrow> jsval \<Rightarrow> world \<Rightarrow> result settled \<times> world" where
  "flask_run srv u m b w =
     (let req = flask_request u m b
      in (wrap (then_p (flask_fetch (srv (sent w) req)) res_json),
          w\<lparr>sent := sent w @ [req]\<rparr>))"

section \<open>Facts about numbers\<close>

lemma round_double_whole: "\<bar>i\<bar> \<le> two53 \<Longrightarrow> round_double (of_int i) = Fin (of_int i)"
proof -
  assume "\<bar>i\<bar> \<le> two53"
  then have "\<bar>(of_int i :: rat)\<bar> \<le> of_int two53"
    by (metis of_int_abs of_int_le_iff)
  then show ?thesis
    by (simp add: round_double_def is_whole_def)
qed

lemma canon_whole: "\<bar>i\<bar> \<le> two53 \<Longrightarrow> canon (whole i) = whole i"
  by (simp add: whole_def round_double_whole)



lemma toString_whole: "\<bar>i\<bar> \<le> two53 \<Longrightarrow> number_toString (whole i) = decimal i"
proof -
  assume a: "\<bar>i\<bar> \<le> two53"
  have pos: "fmt_pos (of_int j) = dec (nat j)" if "0 \<le> j" "j \<le> two53" for j
    using that by (simp add: fmt_pos_def is_whole_def)
  show ?thesis
  proof (cases "i < 0")
    case True
    then have "fmt_pos (- of_int i) = dec (nat (- i))"
      using pos [of "- i"] a by simp
    with True a show ?thesis
      by (simp add: number_toString_def whole_def round_double_whole decimal_def)
  next
    case False
    with a show ?thesis
      using pos [of i] by (simp add: number_toString_def whole_def round_double_whole decimal_def)
  qed
qed




lemma number_toString_zero: "number_toString (Fin 0) = ''0''"
proof -
  have "number_toString (whole 0) = decimal 0"
    by (rule toString_whole) (simp add: two53_def)
  then show ?thesis
    by (simp add: whole_def decimal_def dec.simps digit_char_def)
qed






lemma bit_length_bounds: "2 ^ k \<le> n \<Longrightarrow> n < 2 ^ Suc k \<Longrightarrow> bit_length n = Suc k"
proof (induction k arbitrary: n)
  case 0
  then have "n = 1" by simp
  then show ?case by (simp add: bit_length.simps)
next
  case (Suc k)
  have "2 ^ k \<le> n div 2" using Suc.prems(1) by simp
  moreover have "n div 2 < 2 ^ Suc k" using Suc.prems(2) by simp
  ultimately have "bit_length (n div 2) = Suc k" by (rule Suc.IH)
  moreover have "n \<noteq> 0"
  proof -
    have "(0::nat) < 2 ^ Suc k" by simp
    with Suc.prems(1) show ?thesis by linarith
  qed
  ultimately show ?case by (subst bit_length.simps) simp
qed









text \<open>\<open>10^21\<close> is a double, and the least number that is printed with an exponent.\<close>

lemma bit_length_1e21: "bit_length 1000000000000000000000 = 70"
  using bit_length_bounds [of 69 1000000000000000000000] by simp

lemma floor_log2_1e21: "floor_log2 1000000000000000000000 = 69"
proof -
  have q: "quotient_of (1000000000000000000000 :: rat) = (1000000000000000000000, 1)"
    using quotient_of_int [of 1000000000000000000000] by (simp add: Rat.of_int_def)
  have b1: "bit_length (Suc 0) = 1"
    by (simp add: bit_length.simps)
  show ?thesis
    by (simp add: floor_log2_def q bit_length_1e21 b1 pow2_def Let_def)
qed

lemma round_double_1e21: "round_double 1000000000000000000000 = Fin 1000000000000000000000"
  by (simp add: round_double_def floor_log2_1e21 Let_def pow2_def is_whole_def two53_def)

lemma bit_length_2e21: "bit_length 2000000000000000000000 = 71"
  using bit_length_bounds [of 70 2000000000000000000000] by simp

lemma floor_log2_2e21: "floor_log2 2000000000000000000000 = 70"
proof -
  have q: "quotient_of (2000000000000000000000 :: rat) = (2000000000000000000000, 1)"
    using quotient_of_int [of 2000000000000000000000] by (simp add: Rat.of_int_def)
  have b1: "bit_length (Suc 0) = 1"
    by (simp add: bit_length.simps)
  show ?thesis
    by (simp add: floor_log2_def q bit_length_2e21 b1 pow2_def Let_def)
qed

lemma round_double_2e21: "round_double 2000000000000000000000 = Fin 2000000000000000000000"
  by (simp add: round_double_def floor_log2_2e21 Let_def pow2_def is_whole_def two53_def)

lemma length_dec_1e21: "length (dec 1000000000000000000000) = 22"
  by (simp add: dec.simps)

lemma floor_log10_1e21: "floor_log10 1000000000000000000000 = 21"
proof -
  have q: "quotient_of (1000000000000000000000 :: rat) = (1000000000000000000000, 1)"
    using quotient_of_int [of 1000000000000000000000] by (simp add: Rat.of_int_def)
  have d1: "dec (Suc 0) = ''1''"
    by (simp add: dec.simps digit_char_def)
  show ?thesis
    by (simp add: floor_log10_def q length_dec_1e21 d1 pow10_def Let_def)
qed

lemma candidate_1e21: "candidate 1000000000000000000000 22 (Suc 0) = Some 1"
  by (simp add: candidate_def Let_def pow10_def round_double_1e21 round_double_2e21)

lemma shortest_1e21: "shortest 1000000000000000000000 22 (Suc 0) = (1, Suc 0)"
  by (subst shortest.simps) (simp add: candidate_1e21)

lemma toString_1e21: "number_toString (whole 1000000000000000000000) = ''1e+21''"
proof -
  have d21: "dec 21 = ''21''" "dec (Suc 0) = ''1''"
    by (simp_all add: dec.simps digit_char_def)
  show ?thesis
    by (simp add: number_toString_def whole_def round_double_1e21 fmt_pos_def is_whole_def two53_def
        floor_log10_1e21 shortest_1e21 Let_def d21)
qed

lemma form_encode_1e21: "form_encode ''1e+21'' = ''1e%2B21''"
  by (simp add: form_encode_def encode_byte_def unreserved_def hex_upper_def digit_char_def)

section \<open>Facts about the serializers\<close>







lemma form_encode_from: "form_encode ''from'' = ''from''"
  by (simp add: form_encode_def encode_byte_def unreserved_def)

lemma form_encode_to: "form_encode ''to'' = ''to''"
  by (simp add: form_encode_def encode_byte_def unreserved_def)

lemma form_encode_zero: "form_encode ''0'' = ''0''"
  by (simp add: form_encode_def encode_byte_def unreserved_def)

lemma hex_upper_not_slash: "hex_upper d \<noteq> CHR ''/''"
  by (simp add: hex_upper_def digit_char_def)

lemma encode_byte_no_slash: "CHR ''/'' \<notin> set (encode_byte c)"
  by (auto simp: encode_byte_def unreserved_def hex_upper_not_slash hex_upper_not_slash [symmetric])

lemma encode_byte_nonempty: "encode_byte c \<noteq> []"
  by (simp add: encode_byte_def)

lemma form_encode_no_slash: "CHR ''/'' \<notin> set (form_encode s)"
  by (induction s) (simp_all add: form_encode_def encode_byte_no_slash)

lemma form_encode_nonempty: "s \<noteq> [] \<Longrightarrow> form_encode s \<noteq> []"
  by (cases s) (simp_all add: form_encode_def encode_byte_nonempty)

lemma join_snoc: "join sep (xs @ [y]) = (if xs = [] then y else join sep xs @ sep @ y)"
  by (induction sep xs rule: join.induct) auto

lemma params_toString_window:
  "params_toString (front @ [(''from'', f), (''to'', t)]) =
     (if front = [] then [] else params_toString front @ ''&'')
       @ ''from='' @ form_encode f @ ''&to='' @ form_encode t"
proof -
  let ?enc = "\<lambda>(k, v). form_encode k @ ''='' @ form_encode v"
  have "params_toString (front @ [(''from'', f), (''to'', t)])
        = join ''&'' ((map ?enc front @ [''from='' @ form_encode f]) @ [''to='' @ form_encode t])"
    by (simp add: params_toString_def form_encode_from form_encode_to)
  also have "\<dots> = join ''&'' (map ?enc front @ [''from='' @ form_encode f])
                    @ ''&'' @ ''to='' @ form_encode t"
    by (simp only: join_snoc) simp
  also have "join ''&'' (map ?enc front @ [''from='' @ form_encode f])
             = (if front = [] then [] else params_toString front @ ''&'') @ ''from='' @ form_encode f"
    by (simp add: join_snoc params_toString_def)
  finally show ?thesis by simp
qed

lemma strip_trailing_slashes_id:
  "s \<noteq> [] \<Longrightarrow> last s \<noteq> CHR ''/'' \<Longrightarrow> strip_trailing_slashes (pre @ s) = pre @ s"
  by (cases s rule: rev_cases) (simp_all add: strip_trailing_slashes_def)

section \<open>Facts about chains\<close>





lemma window_of_page_params:
  assumes "page_params st = [(''from'', f), (''to'', t)]" and "t \<noteq> []"
  shows "buildQS st = window_qs st (form_encode f) (form_encode t)"
    and "url (run_request API_BASE table st)
           = API_BASE @ ''/db/'' @ table @ window_qs st (form_encode f) (form_encode t)"
proof -
  let ?front = "filter_params st @ order_params st"
  let ?head = "(if ?front = [] then [] else params_toString ?front @ ''&'')
                 @ ''from='' @ form_encode f @ ''&to=''"
  have "params st = ?front @ [(''from'', f), (''to'', t)]"
    by (simp add: params_def assms(1))
  then have "params_toString (params st) = ?head @ form_encode t"
    by (simp only: params_toString_window) simp
  then show qs: "buildQS st = window_qs st (form_encode f) (form_encode t)"
    by (simp add: buildQS_def window_qs_def Let_def)
  have ne: "form_encode t \<noteq> []"
    by (rule form_encode_nonempty [OF assms(2)])
  then have "last (form_encode t) \<in> set (form_encode t)" by simp
  then have "last (form_encode t) \<noteq> CHR ''/''"
    using form_encode_no_slash [of t] by metis
  with ne have "strip_trailing_slashes ((API_BASE @ ''/db/'' @ table @ ''?'' @ ?head) @ form_encode t)
        = (API_BASE @ ''/db/'' @ table @ ''?'' @ ?head) @ form_encode t"
    by (rule strip_trailing_slashes_id)
  then show "url (run_request API_BASE table st)
           = API_BASE @ ''/db/'' @ table @ window_qs st (form_encode f) (form_encode t)"
    by (simp add: run_request_def api_request_def run_url_def qs window_qs_def)
qed





text \<open>\<^verbatim>\<open>eq("__proto__", v)\<close> adds no filter while the setter of \<^verbatim>\<open>Object.prototype\<close> is
  inherited; after \<^verbatim>\<open>eq("__proto__", null)\<close> it is not, and the next one adds a filter.\<close>

lemma eq_proto_no_filter:
  "filters (chain [Eq ''__proto__'' (JStr ''x'')]) = []
   \<and> buildQS (chain [Eq ''__proto__'' (JStr ''x'')]) = []
   \<and> buildQS (chain [Eq ''__proto__'' (JObj [(''a'', JStr ''b'')]), Eq ''id'' (JStr ''7'')])
       = ''?eq.id=7''
   \<and> buildQS (chain [Eq ''__proto__'' JNull, Eq ''__proto__'' (JStr ''x'')])
       = ''?eq.__proto__=x''"
  by code_simp

text \<open>\<^verbatim>\<open>range(0, 1e21)\<close>: the upper bound goes out in exponent form, its \<^verbatim>\<open>+\<close> encoded.\<close>

lemma range_1e21_query:
  "page_params (chain [Range (whole 0) (whole 1000000000000000000000)])
     = [(''from'', ''0''), (''to'', ''1e+21'')]
   \<and> buildQS (chain [Range (whole 0) (whole 1000000000000000000000)]) = ''?from=0&to=1e%2B21''"
proof -
  let ?st = "chain [Range (whole 0) (whole 1000000000000000000000)]"
  have z: "number_toString (whole 0) = ''0''"
    by (simp add: whole_def number_toString_zero)
  have pp: "page_params ?st = [(''from'', ''0''), (''to'', ''1e+21'')]"
    by (simp add: chain_def init_state_def page_params_def z toString_1e21)
  have f: "filter_params ?st @ order_params ?st = []"
    by (simp add: chain_def init_state_def filter_params_def order_params_def object_entries_def)
  have "buildQS ?st = window_qs ?st (form_encode ''0'') (form_encode ''1e+21'')"
    by (rule window_of_page_params(1) [OF pp]) simp
  then show ?thesis
    using pp by (simp add: window_qs_def f form_encode_zero form_encode_1e21)
qed

section \<open>Pagination bounds\<close>









section \<open>Facts about execution\<close>

lemma run_eq:
  "run srv API_BASE table st w =
     (api_result (srv (sent w) (run_request API_BASE table st)),
      w\<lparr>sent := sent w @ [run_request API_BASE table st]\<rparr>)"
  by (simp add: run_def api_def run_request_def Let_def)

lemma api_result_ok:
  "ok res \<Longrightarrow> body_value res = Inr d \<Longrightarrow>
   api_result (Response res) = Resolved \<lparr>data = d, error = JNull\<rparr>"
  by (simp add: api_result_def)

lemma api_result_json_response: "api_result (json_response v) = Resolved \<lparr>data = v, error = JNull\<rparr>"
  by (simp add: api_result_def json_response_def body_value_def isJson_def)


section \<open>Awaiting a chain\<close>




section \<open>Taking the first row\<close>

text \<open>
  Claim C8: when the response to the chain's request is ok and its body is the empty
  array, \<^verbatim>\<open>single()\<close> resolves to \<^verbatim>\<open>{data: null, error: null}\<close>; when the body is a
  non-empty array, it resolves to \<^verbatim>\<open>{data: <first element>, error: null}\<close>. (A parsed
  JSON array has no \<^verbatim>\<open>undefined\<close> element.)
\<close>

theorem single_first_row:
  assumes "srv (sent w) (run_request API_BASE table st) = Response res" and "ok res"
  shows "(body_value res = Inr (JArr []) \<longrightarrow>
            fst (single srv API_BASE table st w) = Resolved \<lparr>data = JNull, error = JNull\<rparr>)
       \<and> (body_value res = Inr (JArr (x # xs)) \<and> x \<noteq> JUndefined \<longrightarrow>
            fst (single srv API_BASE table st w) = Resolved \<lparr>data = x, error = JNull\<rparr>)"
proof (intro conjI impI)
  assume "body_value res = Inr (JArr [])"
  then have "api_result (Response res) = Resolved \<lparr>data = JArr [], error = JNull\<rparr>"
    using assms(2) by (simp add: api_result_ok)
  then show "fst (single srv API_BASE table st w) = Resolved \<lparr>data = JNull, error = JNull\<rparr>"
    using assms(1) by (simp add: single_def run_eq coalesce_def)
next
  assume a: "body_value res = Inr (JArr (x # xs)) \<and> x \<noteq> JUndefined"
  then have "api_result (Response res) = Resolved \<lparr>data = JArr (x # xs), error = JNull\<rparr>"
    using assms(2) by (simp add: api_result_ok)
  moreover have "coalesce x JNull = x"
    using a by (cases x) (simp_all add: coalesce_def)
  ultimately show "fst (single srv API_BASE table st w) = Resolved \<lparr>data = x, error = JNull\<rparr>"
    using assms(1) by (simp add: single_def run_eq)
qed

theorem single_first_row_witness:
  "fst (single (scripted [json_response (JArr [])]) ''/api'' ''chats''
          (chain [Select None, Eq ''id'' (JStr ''a'')]) fresh)
     = Resolved \<lparr>data = JNull, error = JNull\<rparr>
   \<and> fst (single (scripted [json_response (JArr [JObj [(''id'', JStr ''a'')]])]) ''/api'' ''chats''
          (chain [Select None, Eq ''id'' (JStr ''a'')]) fresh)
     = Resolved \<lparr>data = JObj [(''id'', JStr ''a'')], error = JNull\<rparr>"
proof -
  let ?st = "chain [Select None, Eq ''id'' (JStr ''a'')]"
  let ?res = "\<lambda>v. \<lparr>ok = True, statusText = ''OK'', contentType = Some ''application/json'',
               json_body = Inr v, text_body = Inr []\<rparr>"
  have s: "scripted [json_response v] (sent fresh) (run_request ''/api'' ''chats'' ?st) = Response (?res v)" for v
    by (simp add: scripted_def fresh_def json_response_def)
  have o: "ok (?res v)" for v by simp
  have b: "body_value (?res v) = Inr v" for v
    by (simp add: body_value_def isJson_def)
  have u: "JObj [(''id'', JStr ''a'')] \<noteq> JUndefined" by simp
  show ?thesis
    using single_first_row [where srv = "scripted [json_response (JArr [])]" and w = fresh
        and API_BASE = "''/api''" and table = "''chats''" and st = ?st and res = "?res (JArr [])",
        OF s o]
      single_first_row [where srv = "scripted [json_response (JArr [JObj [(''id'', JStr ''a'')]])]"
        and w = fresh and API_BASE = "''/api''" and table = "''chats''" and st = ?st
        and res = "?res (JArr [JObj [(''id'', JStr ''a'')]])"
        and x = "JObj [(''id'', JStr ''a'')]" and xs = "[]", OF s o]
      b u
    by simp
qed

text \<open>
  Claim C9: \<^verbatim>\<open>single()\<close> and \<^verbatim>\<open>maybeSingle()\<close> resolve to the same result and leave the
  same world, for every server, chain and world. Neither has an error of its own for
  a result of no row or of several rows: on an ok response of two or more rows
  \<^verbatim>\<open>single()\<close> resolves to the first row with a \<^verbatim>\<open>null\<close> error, on one of no row to
  \<^verbatim>\<open>null\<close> with a \<^verbatim>\<open>null\<close> error.
\<close>

theorem single_is_maybeSingle:
  "single srv API_BASE table st w = maybeSingle srv API_BASE table st w
   \<and> fst (single (\<lambda>h req. json_response (JArr (x # y # ys))) API_BASE table st w)
       = Resolved \<lparr>data = coalesce x JNull, error = JNull\<rparr>
   \<and> fst (single (\<lambda>h req. json_response (JArr [])) API_BASE table st w)
       = Resolved \<lparr>data = JNull, error = JNull\<rparr>"
  by (simp add: single_def maybeSingle_def run_eq api_result_json_response coalesce_def)

section \<open>Transport failures\<close>

lemma wrap_resolves: "\<exists>r. wrap p = Resolved r"
  by (cases p) (simp_all add: wrap_def then_p_def catch_p_def)

lemma wrap_rejected: "wrap (Rejected e) = Resolved \<lparr>data = JNull, error = JErr e\<rparr>"
  by (simp add: wrap_def then_p_def catch_p_def)

text \<open>
  Claim C2 says that no query-builder or session operation lets a transport failure
  escape as an exception. \<^verbatim>\<open>api\<close> in \<^verbatim>\<open>client.ts\<close> catches nothing: with the network
  down, \<^verbatim>\<open>single()\<close> and \<^verbatim>\<open>getSession()\<close> reject with the exception of \<^verbatim>\<open>fetch\<close>.
\<close>

theorem transport_failure_counterexample:
  "fst (single (scripted []) ''/api'' ''chats'' (chain [Select None, Eq ''id'' (JStr ''a'')]) fresh)
     = Rejected failed_to_fetch
   \<and> fst (getSession (scripted []) ''/api'' fresh) = Rejected failed_to_fetch"
  by code_simp

text \<open>
  Claim C2, amended: every operation of the plain fetch client that goes through
  \<^verbatim>\<open>run\<close> and \<^verbatim>\<open>wrap\<close> resolves a transport failure to
  \<^verbatim>\<open>{data: null, error: <the exception>}\<close>, and \<^verbatim>\<open>wrap\<close> never rejects.
\<close>

theorem wrap_catches_transport_failure:
  assumes "srv (sent w) (flask_request u m b) = NetworkFailure e"
  shows "flask_run srv u m b w =
           (Resolved \<lparr>data = JNull, error = JErr e\<rparr>, w\<lparr>sent := sent w @ [flask_request u m b]\<rparr>)
       \<and> (\<forall>p. \<exists>r. wrap p = Resolved r)"
  using assms
  by (simp add: flask_run_def flask_fetch_def then_p_def wrap_rejected wrap_resolves)

theorem wrap_catches_transport_failure_witness:
  "fst (flask_run (scripted []) ''http://localhost:5000/auth/session'' GET JUndefined fresh)
     = Resolved \<lparr>data = JNull, error = JErr failed_to_fetch\<rparr>"
proof -
  have "scripted [] (sent fresh) (flask_request ''http://localhost:5000/auth/session'' GET JUndefined)
          = NetworkFailure failed_to_fetch"
    by (simp add: scripted_def)
  from wrap_catches_transport_failure [where srv = "scripted []" and w = fresh, OF this]
  show ?thesis
    by simp
qed

section \<open>Signing in and signing up\<close>

text \<open>
  Claim C7 says that both \<^verbatim>\<open>signInWithPassword\<close> and \<^verbatim>\<open>signUp\<close> update the cached
  session on success. After a successful \<^verbatim>\<open>signUp\<close> on a fresh module the cached
  session is still \<^verbatim>\<open>null\<close>; after \<^verbatim>\<open>signInWithPassword\<close> it is the session.
\<close>

theorem signUp_counterexample:
  "fst (signUp (scripted [json_response u1_session])
          ''/api'' ''a@b.c'' ''secret'' fresh)
     = Resolved \<lparr>data = u1_session, error = JNull\<rparr>
   \<and> currentSession (snd (signUp (scripted [json_response u1_session])
          ''/api'' ''a@b.c'' ''secret'' fresh)) = JNull
   \<and> currentSession (snd (signInWithPassword (scripted [json_response u1_session])
          ''/api'' ''a@b.c'' ''secret'' fresh)) = u1_session"
  by code_simp

lemma get_prop_not_nullish: "\<not> nullish d \<Longrightarrow> get_prop d k = Inr (own_prop d k)"
  by (simp add: get_prop_def)

text \<open>
  Claim C7, amended: when the response is ok and its body is neither \<^verbatim>\<open>null\<close> nor
  \<^verbatim>\<open>undefined\<close>, \<^verbatim>\<open>signInWithPassword\<close> sets the cached session to \<^verbatim>\<open>{user: data.user}\<close>
  at once and resolves to \<^verbatim>\<open>{data: {user: data.user}, error: null}\<close>, and \<^verbatim>\<open>signUp\<close>
  resolves to \<^verbatim>\<open>{data: {user: data.user}, error: null}\<close>.
\<close>

theorem signIn_caches_session:
  assumes "ok res" and "body_value res = Inr d" and "\<not> nullish d"
  shows "(srv (sent w) (api_request API_BASE ''/auth/signin'' (credentials_opts email password))
            = Response res \<longrightarrow>
          signInWithPassword srv API_BASE email password w =
            (Resolved \<lparr>data = JObj [(''user'', own_prop d ''user'')], error = JNull\<rparr>,
             w\<lparr>sent := sent w @ [api_request API_BASE ''/auth/signin'' (credentials_opts email password)],
               currentSession := JObj [(''user'', own_prop d ''user'')]\<rparr>))
       \<and> (srv (sent w) (api_request API_BASE ''/auth/signup'' (credentials_opts email password))
            = Response res \<longrightarrow>
          fst (signUp srv API_BASE email password w) =
            Resolved \<lparr>data = JObj [(''user'', own_prop d ''user'')], error = JNull\<rparr>)"
  using api_result_ok [OF assms(1,2)] get_prop_not_nullish [OF assms(3)]
  by (simp add: signInWithPassword_def signUp_def api_def Let_def)

theorem signIn_caches_session_witness:
  "signInWithPassword (scripted [json_response u1_session])
          ''/api'' ''a@b.c'' ''secret'' fresh
     = (Resolved \<lparr>data = u1_session, error = JNull\<rparr>,
        \<lparr>sent = [api_request ''/api'' ''/auth/signin'' (credentials_opts ''a@b.c'' ''secret'')],
         currentSession = u1_session\<rparr>)
   \<and> fst (signUp (scripted [json_response u1_session])
          ''/api'' ''a@b.c'' ''secret'' fresh)
     = Resolved \<lparr>data = u1_session, error = JNull\<rparr>"
proof -
  let ?d = "u1_session"
  let ?res = "\<lparr>ok = True, statusText = ''OK'', contentType = Some ''application/json'',
               json_body = Inr ?d, text_body = Inr []\<rparr>"
  have o: "ok ?res" by simp
  have b: "body_value ?res = Inr ?d" by (simp add: body_value_def isJson_def)
  have n: "\<not> nullish ?d" by (simp add: u1_session_def)
  have s: "scripted [json_response ?d] (sent fresh) req = Response ?res" for req
    by (simp add: scripted_def fresh_def json_response_def)
  show ?thesis
    using signIn_caches_session [OF o b n, of "scripted [json_response ?d]" fresh "''/api''" "''a@b.c''" "''secret''"] s
    by (simp add: fresh_def u1_session_def)
qed

section \<open>Polling the session\<close>

lemma poll_tick_settled:
  assumes "timer_set s" and "in_flight s = []"
    and "srv (sent (wld s)) (api_request API_BASE ''/auth/session'' no_opts) = json_response v"
  shows "poll_tick srv API_BASE s =
           (if stringify (session_of v) \<noteq> last' s
            then s\<lparr>wld := \<lparr>sent = sent (wld s) @ [api_request API_BASE ''/auth/session'' no_opts],
                           currentSession = session_of v\<rparr>,
                   last' := stringify (session_of v),
                   notified := notified s @
                     [(if truthy (session_of v) then ''SIGNED_IN'' else ''SIGNED_OUT'', session_of v)]\<rparr>
            else s\<lparr>wld := \<lparr>sent = sent (wld s) @ [api_request API_BASE ''/auth/session'' no_opts],
                           currentSession = currentSession (wld s)\<rparr>\<rparr>)"
  using assms
  by (simp add: poll_tick_def poll_start_def api_def Let_def api_result_json_response poll_finish_def)

lemma session_of_null: "session_of JNull = JNull"
  by (simp add: session_of_def opt_prop_def)

lemma session_of_u1: "session_of u1_session = u1_session"
  by (simp add: session_of_def opt_prop_def u1_session_def)

lemma stringify_u1: "stringify u1_session \<noteq> Some ''null''"
  by code_simp

lemma truthy_u1: "truthy u1_session"
  by (simp add: u1_session_def)

text \<open>
  Claim C6 says that the answers \<^verbatim>\<open>null\<close>, \<^verbatim>\<open>{user: {id: "u1"}}\<close>, \<^verbatim>\<open>{user: {id: "u1"}}\<close>,
  \<^verbatim>\<open>null\<close> to four successive poll ticks make the callback be called twice, with
  \<open>SIGNED_IN\<close> then \<open>SIGNED_OUT\<close>. The first answer is compared with the session that was
  cached when the callback was subscribed: after \<^verbatim>\<open>getSession\<close> has cached
  \<^verbatim>\<open>{user: {id: "u1"}}\<close>, the same four answers call the callback three times, with
  \<open>SIGNED_OUT\<close>, \<open>SIGNED_IN\<close> and \<open>SIGNED_OUT\<close>.
\<close>

theorem cached_session_counterexample:
  "currentSession (snd (getSession session_script_signed_in ''/api'' fresh)) = u1_session
   \<and> notified (poll_tick session_script_signed_in ''/api''
        (onAuthStateChange (snd (getSession session_script_signed_in ''/api'' fresh))))
       = [(''SIGNED_OUT'', JNull)]
   \<and> notified (poll_tick session_script_signed_in ''/api''
        (poll_tick session_script_signed_in ''/api''
          (poll_tick session_script_signed_in ''/api''
            (poll_tick session_script_signed_in ''/api''
              (onAuthStateChange (snd (getSession session_script_signed_in ''/api'' fresh)))))))
       = [(''SIGNED_OUT'', JNull), (''SIGNED_IN'', u1_session), (''SIGNED_OUT'', JNull)]"
proof -
  let ?R = "api_request ''/api'' ''/auth/session'' no_opts"
  let ?srv = "session_script_signed_in"
  let ?s0 = "\<lparr>wld = \<lparr>sent = [?R], currentSession = u1_session\<rparr>,
              last' = stringify u1_session, timer_set = True, in_flight = [], notified = []\<rparr>"
  let ?s1 = "\<lparr>wld = \<lparr>sent = [?R, ?R], currentSession = JNull\<rparr>, last' = Some ''null'',
              timer_set = True, in_flight = [], notified = [(''SIGNED_OUT'', JNull)]\<rparr>"
  let ?s2 = "\<lparr>wld = \<lparr>sent = [?R, ?R, ?R], currentSession = u1_session\<rparr>,
              last' = stringify u1_session, timer_set = True, in_flight = [],
              notified = [(''SIGNED_OUT'', JNull), (''SIGNED_IN'', u1_session)]\<rparr>"
  let ?s3 = "\<lparr>wld = \<lparr>sent = [?R, ?R, ?R, ?R], currentSession = u1_session\<rparr>,
              last' = stringify u1_session, timer_set = True, in_flight = [],
              notified = [(''SIGNED_OUT'', JNull), (''SIGNED_IN'', u1_session)]\<rparr>"
  let ?s4 = "\<lparr>wld = \<lparr>sent = [?R, ?R, ?R, ?R, ?R], currentSession = JNull\<rparr>,
              last' = Some ''null'', timer_set = True, in_flight = [],
              notified = [(''SIGNED_OUT'', JNull), (''SIGNED_IN'', u1_session),
                          (''SIGNED_OUT'', JNull)]\<rparr>"
  have g: "snd (getSession ?srv ''/api'' fresh) = \<lparr>sent = [?R], currentSession = u1_session\<rparr>"
    by (simp add: getSession_def api_def Let_def fresh_def session_script_signed_in_def
        scripted_def api_result_json_response session_of_u1)
  have s0: "onAuthStateChange (snd (getSession ?srv ''/api'' fresh)) = ?s0"
    using truthy_u1 by (simp add: g onAuthStateChange_def js_or_def)
  have t1: "poll_tick ?srv ''/api'' ?s0 = ?s1"
    by (subst poll_tick_settled [where v = JNull])
       (simp_all add: session_script_signed_in_def scripted_def session_of_null
          stringify_u1 [symmetric])
  have t2: "poll_tick ?srv ''/api'' ?s1 = ?s2"
    by (subst poll_tick_settled [where v = u1_session])
       (simp_all add: session_script_signed_in_def scripted_def session_of_u1 stringify_u1
          truthy_u1)
  have t3: "poll_tick ?srv ''/api'' ?s2 = ?s3"
    by (subst poll_tick_settled [where v = u1_session])
       (simp_all add: session_script_signed_in_def scripted_def session_of_u1)
  have t4: "poll_tick ?srv ''/api'' ?s3 = ?s4"
    by (subst poll_tick_settled [where v = JNull])
       (simp_all add: session_script_signed_in_def scripted_def session_of_null
          stringify_u1 [symmetric])
  show ?thesis
    by (simp only: s0 t1 t2 t3 t4) (simp add: g)
qed

text \<open>
  Claim C6, amended: when the callback is subscribed while the cached session is
  \<^verbatim>\<open>null\<close> (or another falsy value), and the session endpoint answers the next four
  requests, one per poll tick, each poll settling before the next tick, with \<^verbatim>\<open>null\<close>,
  \<^verbatim>\<open>{user: {id: "u1"}}\<close>, \<^verbatim>\<open>{user: {id: "u1"}}\<close>, \<^verbatim>\<open>null\<close>, then the callback is called
  twice: with \<open>SIGNED_IN\<close> and the session at the second tick, with \<open>SIGNED_OUT\<close> and
  \<^verbatim>\<open>null\<close> at the fourth; the first and the third tick call nothing. This holds for every
  server, base address and requests sent before.
\<close>

theorem poll_sequence_notifications:
  assumes "\<not> truthy (currentSession w)"
    and "\<forall>k<4. srv (sent w @ replicate k (api_request API_BASE ''/auth/session'' no_opts))
                   (api_request API_BASE ''/auth/session'' no_opts)
                 = json_response ([JNull, u1_session, u1_session, JNull] ! k)"
  shows "notified (poll_tick srv API_BASE (onAuthStateChange w)) = []
   \<and> notified (poll_tick srv API_BASE (poll_tick srv API_BASE (onAuthStateChange w)))
       = [(''SIGNED_IN'', u1_session)]
   \<and> notified (poll_tick srv API_BASE
        (poll_tick srv API_BASE (poll_tick srv API_BASE (onAuthStateChange w))))
       = [(''SIGNED_IN'', u1_session)]
   \<and> notified (poll_tick srv API_BASE
        (poll_tick srv API_BASE
          (poll_tick srv API_BASE (poll_tick srv API_BASE (onAuthStateChange w)))))
       = [(''SIGNED_IN'', u1_session), (''SIGNED_OUT'', JNull)]"
proof -
  let ?R = "api_request API_BASE ''/auth/session'' no_opts"
  let ?s0 = "\<lparr>wld = w, last' = Some ''null'', timer_set = True, in_flight = [], notified = []\<rparr>"
  let ?s1 = "\<lparr>wld = \<lparr>sent = sent w @ [?R], currentSession = currentSession w\<rparr>,
              last' = Some ''null'', timer_set = True, in_flight = [], notified = []\<rparr>"
  let ?s2 = "\<lparr>wld = \<lparr>sent = sent w @ [?R, ?R], currentSession = u1_session\<rparr>,
              last' = stringify u1_session, timer_set = True, in_flight = [],
              notified = [(''SIGNED_IN'', u1_session)]\<rparr>"
  let ?s3 = "\<lparr>wld = \<lparr>sent = sent w @ [?R, ?R, ?R], currentSession = u1_session\<rparr>,
              last' = stringify u1_session, timer_set = True, in_flight = [],
              notified = [(''SIGNED_IN'', u1_session)]\<rparr>"
  let ?s4 = "\<lparr>wld = \<lparr>sent = sent w @ [?R, ?R, ?R, ?R], currentSession = JNull\<rparr>,
              last' = Some ''null'', timer_set = True, in_flight = [],
              notified = [(''SIGNED_IN'', u1_session), (''SIGNED_OUT'', JNull)]\<rparr>"
  have r0: "srv (sent w) ?R = json_response JNull"
    using assms(2) [rule_format, of 0] by simp
  have r1: "srv (sent w @ [?R]) ?R = json_response u1_session"
    using assms(2) [rule_format, of 1] by simp
  have r2: "srv (sent w @ [?R, ?R]) ?R = json_response u1_session"
    using assms(2) [rule_format, of 2] by (simp add: numeral_2_eq_2)
  have r3: "srv (sent w @ [?R, ?R, ?R]) ?R = json_response JNull"
    using assms(2) [rule_format, of 3] by (simp add: numeral_3_eq_3)
  have s0: "onAuthStateChange w = ?s0"
    using assms(1) by (simp add: onAuthStateChange_def js_or_def)
  have t1: "poll_tick srv API_BASE ?s0 = ?s1"
    by (subst poll_tick_settled [where v = JNull]) (simp_all add: r0 session_of_null)
  have t2: "poll_tick srv API_BASE ?s1 = ?s2"
    by (subst poll_tick_settled [where v = u1_session])
       (simp_all add: r1 session_of_u1 stringify_u1 truthy_u1)
  have t3: "poll_tick srv API_BASE ?s2 = ?s3"
    by (subst poll_tick_settled [where v = u1_session]) (simp_all add: r2 session_of_u1)
  have t4: "poll_tick srv API_BASE ?s3 = ?s4"
    by (subst poll_tick_settled [where v = JNull])
       (simp_all add: r3 session_of_null stringify_u1 [symmetric])
  show ?thesis
    by (simp only: s0 t1 t2 t3 t4) simp
qed

text \<open>A fresh module, whose cached session is \<^verbatim>\<open>null\<close>, and a session endpoint that gives
  these four answers.\<close>

theorem poll_sequence_notifications_witness:
  "notified (poll_tick session_script ''/api'' (onAuthStateChange fresh)) = []
   \<and> notified (poll_tick session_script ''/api''
        (poll_tick session_script ''/api''
          (poll_tick session_script ''/api''
            (poll_tick session_script ''/api'' (onAuthStateChange fresh)))))
       = [(''SIGNED_IN'', u1_session), (''SIGNED_OUT'', JNull)]"
proof -
  have c: "\<not> truthy (currentSession fresh)"
    by (simp add: fresh_def)
  have a: "\<forall>k<4. session_script
                   (sent fresh @ replicate k (api_request ''/api'' ''/auth/session'' no_opts))
                   (api_request ''/api'' ''/auth/session'' no_opts)
                 = json_response ([JNull, u1_session, u1_session, JNull] ! k)"
    by (simp add: session_script_def scripted_def fresh_def eval_nat_numeral less_Suc_eq
        all_conj_distrib imp_disjL)
  show ?thesis
    using poll_sequence_notifications
            [where w = fresh and srv = session_script and API_BASE = "''/api''", OF c a]
    by simp
qed

lemma poll_finish_frame:
  "timer_set (poll_finish r s) = timer_set s
   \<and> in_flight (poll_finish r s) = in_flight s
   \<and> sent (wld (poll_finish r s)) = sent (wld s)
   \<and> prefix (notified s) (notified (poll_finish r s))
   \<and> length (notified (poll_finish r s)) \<le> Suc (length (notified s))"
  by (cases r) (simp_all add: poll_finish_def Let_def)

lemma length_remove_nth:
  "i < length xs \<Longrightarrow> Suc (length (take i xs @ drop (Suc i) xs)) = length xs"
  by (simp add: min_def)

lemma step_timer_cleared:
  assumes "\<not> timer_set s"
  shows "\<not> timer_set (step srv API_BASE ev s)
       \<and> sent (wld (step srv API_BASE ev s)) = sent (wld s)
       \<and> prefix (notified s) (notified (step srv API_BASE ev s))
       \<and> length (notified (step srv API_BASE ev s)) + length (in_flight (step srv API_BASE ev s))
           \<le> length (notified s) + length (in_flight s)"
proof (cases ev)
  case TimerFires
  then show ?thesis using assms by (simp add: poll_start_def)
next
  case (PollSettles i)
  show ?thesis
  proof (cases "i < length (in_flight s)")
    case True
    define s' where "s' = s\<lparr>in_flight := take i (in_flight s) @ drop (Suc i) (in_flight s)\<rparr>"
    define t where "t = poll_finish (in_flight s ! i) s'"
    have st: "step srv API_BASE ev s = t"
      using PollSettles True by (simp add: t_def s'_def)
    have len: "Suc (length (in_flight s')) = length (in_flight s)"
      using length_remove_nth [OF True] by (simp add: s'_def)
    have s': "timer_set s' = timer_set s" "wld s' = wld s" "notified s' = notified s"
      by (simp_all add: s'_def)
    have f: "timer_set t = timer_set s'" "in_flight t = in_flight s'"
      "sent (wld t) = sent (wld s')" "prefix (notified s') (notified t)"
      "length (notified t) \<le> Suc (length (notified s'))"
      using poll_finish_frame [of "in_flight s ! i" s'] by (simp_all add: t_def)
    have "length (notified t) \<le> Suc (length (notified s))"
      using f(5) s'(3) by simp
    moreover have "length (in_flight t) = length (in_flight s')"
      using f(2) by simp
    ultimately have "length (notified t) + length (in_flight t)
                       \<le> length (notified s) + length (in_flight s)"
      using len by linarith
    then show ?thesis
      unfolding st using f(1,3,4) s' assms by simp
  next
    case False
    then show ?thesis using PollSettles assms by simp
  qed
next
  case Unsubscribe
  then show ?thesis by simp
qed

lemma run_events_timer_cleared:
  "\<not> timer_set s \<Longrightarrow>
   \<not> timer_set (run_events srv API_BASE evs s)
   \<and> sent (wld (run_events srv API_BASE evs s)) = sent (wld s)
   \<and> prefix (notified s) (notified (run_events srv API_BASE evs s))
   \<and> length (notified (run_events srv API_BASE evs s)) + length (in_flight (run_events srv API_BASE evs s))
       \<le> length (notified s) + length (in_flight s)"
proof (induction evs arbitrary: s)
  case Nil
  then show ?case by (simp add: run_events_def)
next
  case (Cons ev evs)
  let ?t = "step srv API_BASE ev s"
  have t: "\<not> timer_set ?t" "sent (wld ?t) = sent (wld s)" "prefix (notified s) (notified ?t)"
    "length (notified ?t) + length (in_flight ?t) \<le> length (notified s) + length (in_flight s)"
    using step_timer_cleared [OF Cons.prems, of srv API_BASE ev] by simp_all
  have r: "run_events srv API_BASE (ev # evs) s = run_events srv API_BASE evs ?t"
    by (simp add: run_events_def)
  from Cons.IH [OF t(1)] t show ?case
    unfolding r by (auto intro: prefix_order.trans)
qed

text \<open>
  Claim C3 says that the callback is never called after \<^verbatim>\<open>unsubscribe\<close> returns, not even
  by a poll in flight. \<^verbatim>\<open>unsubscribe\<close> clears the timer and nothing else: a poll that
  was started before it and settles after it calls the callback.
\<close>

theorem unsubscribe_counterexample:
  "notified (run_events (scripted [json_response u1_session]) ''/api''
      [TimerFires, Unsubscribe] (onAuthStateChange fresh)) = []
   \<and> notified (run_events (scripted [json_response u1_session]) ''/api''
      [TimerFires, Unsubscribe, PollSettles 0] (onAuthStateChange fresh))
     = [(''SIGNED_IN'', u1_session)]"
  by code_simp

text \<open>
  Claim C3, amended: after \<^verbatim>\<open>unsubscribe\<close> returns, whatever happens next, no poll is
  started (no request is sent), the calls made to the callback so far stay as they are,
  and the callback is called at most once more for each poll that was in flight when
  \<^verbatim>\<open>unsubscribe\<close> was called; with no poll in flight it is never called again.
\<close>

theorem unsubscribe_stops_polling:
  "sent (wld (run_events srv API_BASE evs (step srv API_BASE Unsubscribe s))) = sent (wld s)
   \<and> prefix (notified s) (notified (run_events srv API_BASE evs (step srv API_BASE Unsubscribe s)))
   \<and> length (notified (run_events srv API_BASE evs (step srv API_BASE Unsubscribe s)))
       \<le> length (notified s) + length (in_flight s)
   \<and> (in_flight s = [] \<longrightarrow>
        notified (run_events srv API_BASE evs (step srv API_BASE Unsubscribe s)) = notified s)"
proof -
  let ?u = "step srv API_BASE Unsubscribe s"
  let ?t = "run_events srv API_BASE evs ?u"
  have "\<not> timer_set ?u" by simp
  from run_events_timer_cleared [OF this, of srv API_BASE evs]
  have a: "sent (wld ?t) = sent (wld s)" and b: "prefix (notified s) (notified ?t)"
    and c: "length (notified ?t) + length (in_flight ?t) \<le> length (notified s) + length (in_flight s)"
    by simp_all
  have "notified ?t = notified s" if "in_flight s = []"
  proof -
    from c that have "length (notified ?t) \<le> length (notified s)" by simp
    with b show ?thesis
      by (metis prefix_order.eq_iff prefix_length_prefix)
  qed
  with a b c show ?thesis by simp
qed

theorem unsubscribe_stops_polling_witness:
  "notified (run_events (scripted [json_response u1_session, json_response JNull]) ''/api''
      [TimerFires, PollSettles 0, TimerFires]
      (step (scripted [json_response u1_session, json_response JNull]) ''/api'' Unsubscribe
        (poll_tick (scripted [json_response u1_session, json_response JNull]) ''/api''
          (onAuthStateChange fresh))))
     = [(''SIGNED_IN'', u1_session)]"
proof -
  let ?srv = "scripted [json_response u1_session, json_response JNull]"
  let ?s = "poll_tick ?srv ''/api'' (onAuthStateChange fresh)"
  have i: "in_flight ?s = []" by code_simp
  have n: "notified ?s = [(''SIGNED_IN'', u1_session)]" by code_simp
  show ?thesis
    using unsubscribe_stops_polling [of ?srv "''/api''" "[TimerFires, PollSettles 0, TimerFires]" ?s]
      i n
    by simp
qed

end
